theory Spec2Isabelle
  imports Main "HOL-Library.Word"
begin

section \<open>Data model of account.go\<close>

text \<open>
  Machine integers keep their width: heights are \<open>int32\<close>, amounts are \<open>uint64\<close>, and
  their arithmetic wraps around as Go's does. Go's \<open>int\<close> (the parameters \<open>confirms\<close>,
  \<open>from\<close> and \<open>count\<close>) is an \<open>int\<close> here; the one place where an \<open>int\<close> computation can
  overflow, \<open>len(a.TxStore.s) - count\<close>, is wrapped explicitly by \<open>wrap_int\<close>.
\<close>

type_synonym int32 = "32 word"
type_synonym uint32 = "32 word"
type_synonym uint64 = "64 word"
type_synonym bytes = "8 word list"

text \<open>Go's \<open>int\<close> on a 64-bit platform: two's complement wrap-around of an integer.\<close>

definition wrap_int :: "int \<Rightarrow> int" where
  "wrap_int x = (x + 2 ^ 63) mod 2 ^ 64 - 2 ^ 63"

text \<open>
  Errors are values. \<open>ErrNotFound\<close> is the package variable of that name,
  \<open>ErrWrongNetwork\<close> is \<open>errors.New("wrong network")\<close>, \<open>ErrImportFailed e\<close> is
  \<open>fmt.Errorf("import failed: cannot write wallet: %v", e)\<close>, and \<open>ErrExternal\<close> is any
  error produced by a collaborator outside account.go. \<open>PanicIndexOutOfRange\<close> is the
  run-time panic of a slice index outside \<open>0 \<le> i < len\<close>.
\<close>

datatype error =
    ErrNotFound
  | ErrWrongNetwork
  | ErrImportFailed error
  | ErrExternal string
  | PanicIndexOutOfRange

record BlockStamp =
  bs_Height :: int32
  bs_Hash :: bytes

record OutPoint =
  op_Hash :: bytes
  op_Index :: uint32

record Utxo =
  Out :: OutPoint
  AddrHash :: bytes
  Amt :: uint64
  Height :: int32

text \<open>
  The two kinds of record of \<open>tx.TxStore\<close>. account.go reads \<open>ReceiverHash\<close> of a
  \<open>RecvTx\<close> and calls \<open>TxInfo\<close> on both kinds; the remaining fields are those the
  specification lists for a record.
\<close>

record RecvTx =
  ReceiverHash :: bytes
  recv_Amt :: uint64
  recv_Height :: int32
  recv_TxID :: bytes

record SendTx =
  Receivers :: "(bytes \<times> uint64) list"
  send_Height :: int32
  send_TxID :: bytes

datatype TxRecord = Send SendTx | Recv RecvTx

text \<open>
  A \<open>btcutil.Address\<close> is used through its methods \<open>ScriptAddress\<close> and
  \<open>EncodeAddress\<close> and through the type assertion to \<open>*btcutil.AddressPubKeyHash\<close>.
\<close>

record Address =
  ScriptAddress :: bytes
  EncodeAddress :: string
  isPubKeyHash :: bool

text \<open>
  The account. \<open>Wallet\<close> is the embedded \<open>*wallet.Wallet\<close>, an opaque state of type
  \<open>'w\<close>; the three mutexes carry no data and the model is sequential.
\<close>

record 'w Account =
  Wallet :: 'w
  name :: string
  dirty :: bool
  fullRescan :: bool
  UtxoStore_dirty :: bool
  UtxoStore_s :: "Utxo list"
  TxStore_dirty :: bool
  TxStore_s :: "TxRecord list"

text \<open>
  What an operation leaves behind besides the account: log lines (by their format
  string), notifications to the frontends and requests to btcd.
\<close>

datatype event =
    LogError string
  | LogInfo string
  | LogDebug string
  | WalletLockStateChange string bool
  | NewTXsRequest "string list"
  | RescanRequest int32 "string list"

text \<open>
  The whole state an operation of account.go can touch: the package-level
  \<open>addressAccountMap\<close>, the account, and the trace of events.
\<close>

record 'w world =
  addressAccountMap :: "string \<rightharpoonup> string"
  account :: "'w Account"
  events :: "event list"

text \<open>
  A \<open>float64\<close> result is kept symbolic, since no floating-point arithmetic is modelled:
  \<open>Float_zero\<close> is the literal \<open>0.\<close>, and \<open>Satoshi_as_BTC bal\<close> is the quotient
  \<open>float64(bal) / float64(btcutil.SatoshiPerBitcoin)\<close> of the satoshi total \<open>bal\<close>.
\<close>

datatype float64 = Float_zero | Satoshi_as_BTC uint64

text \<open>
  Everything account.go calls and does not define: the current-block provider
  \<open>GetCurBlock\<close> with the sentinel \<open>btcutil.BlockHeightUnknown\<close>, the methods of the
  embedded wallet (each takes the wallet's state and returns the new one with its result),
  \<open>btcutil.DecodePrivateKey\<close>, the \<open>Rollback\<close> methods of the two stores, the
  \<open>TxInfo\<close> row builders, the disk (whether writing a given account fails) and the
  request channel to btcd. \<open>'r\<close> is the type of a detail row.
\<close>

record ('w, 'r) externals =
  GetCurBlock :: "BlockStamp \<times> error option"
  BlockHeightUnknown :: int32
  wallet_Lock :: "'w \<Rightarrow> error option \<times> 'w"
  wallet_Unlock :: "bytes \<Rightarrow> 'w \<Rightarrow> error option \<times> 'w"
  wallet_Name :: "'w \<Rightarrow> string"
  wallet_Net :: "'w \<Rightarrow> nat"
  LastChainedAddress :: "'w \<Rightarrow> Address"
  NextChainedAddress :: "BlockStamp \<Rightarrow> 'w \<Rightarrow> (error + Address) \<times> 'w"
  wallet_ImportPrivateKey :: "bytes \<Rightarrow> bool \<Rightarrow> BlockStamp \<Rightarrow> 'w \<Rightarrow> (error + string) \<times> 'w"
  DecodePrivateKey :: "string \<Rightarrow> error + (bytes \<times> nat \<times> bool)"
  UtxoStore_Rollback :: "int32 \<Rightarrow> bytes \<Rightarrow> Utxo list \<Rightarrow> Utxo list \<times> bool"
  TxStore_Rollback :: "int32 \<Rightarrow> bytes \<Rightarrow> TxRecord list \<Rightarrow> TxRecord list \<times> bool"
  RecvTx_TxInfo :: "RecvTx \<Rightarrow> string \<Rightarrow> int32 \<Rightarrow> nat \<Rightarrow> 'r"
  SendTx_output_info :: "SendTx \<Rightarrow> bytes \<times> uint64 \<Rightarrow> string \<Rightarrow> int32 \<Rightarrow> nat \<Rightarrow> 'r"
  disk_write :: "'w Account \<Rightarrow> error option"
  NotifyNewTXs :: "string list \<Rightarrow> error option"

section \<open>The address registry\<close>

definition MarkAddressForAccount :: "string \<Rightarrow> string \<Rightarrow> 'w world \<Rightarrow> 'w world" where
  "MarkAddressForAccount address acct st =
     st\<lparr>addressAccountMap := (addressAccountMap st)(address \<mapsto> acct)\<rparr>"

definition LookupAccountByAddress :: "string \<Rightarrow> 'w world \<Rightarrow> error + string" where
  "LookupAccountByAddress address st =
     (case addressAccountMap st address of
        None \<Rightarrow> Inl ErrNotFound
      | Some acct \<Rightarrow> Inr acct)"

section \<open>Balances\<close>

text \<open>
  The condition of the \<open>if\<close> in both balance loops:
  \<open>confirms == 0 || (u.Height != -1 && int(bs.Height-u.Height+1) >= confirms)\<close>.
  The subtraction and the addition are \<open>int32\<close> operations; \<open>sint\<close> is the conversion
  to \<open>int\<close>.
\<close>

definition counted :: "int32 \<Rightarrow> int \<Rightarrow> Utxo \<Rightarrow> bool" where
  "counted H confirms u \<longleftrightarrow>
     confirms = 0 \<or> (Height u \<noteq> - 1 \<and> confirms \<le> sint (H - Height u + 1))"

fun CalculateBalance_loop :: "int32 \<Rightarrow> int \<Rightarrow> Utxo list \<Rightarrow> uint64 \<Rightarrow> uint64" where
  "CalculateBalance_loop H confirms [] bal = bal"
| "CalculateBalance_loop H confirms (u # us) bal =
     CalculateBalance_loop H confirms us
       (if counted H confirms u then bal + Amt u else bal)"

definition CalculateBalance :: "('w, 'r) externals \<Rightarrow> 'w Account \<Rightarrow> int \<Rightarrow> float64" where
  "CalculateBalance ext a confirms =
     (case GetCurBlock ext of (bs, err) \<Rightarrow>
        if bs_Height bs = BlockHeightUnknown ext \<or> err \<noteq> None then Float_zero
        else Satoshi_as_BTC (CalculateBalance_loop (bs_Height bs) confirms (UtxoStore_s a) 0))"

fun CalculateAddressBalance_loop ::
  "int32 \<Rightarrow> Address \<Rightarrow> int \<Rightarrow> Utxo list \<Rightarrow> uint64 \<Rightarrow> uint64" where
  "CalculateAddressBalance_loop H addr confirms [] bal = bal"
| "CalculateAddressBalance_loop H addr confirms (u # us) bal =
     CalculateAddressBalance_loop H addr confirms us
       (if counted H confirms u
        then (if ScriptAddress addr = AddrHash u then bal + Amt u else bal)
        else bal)"

definition CalculateAddressBalance ::
  "('w, 'r) externals \<Rightarrow> 'w Account \<Rightarrow> Address \<Rightarrow> int \<Rightarrow> float64" where
  "CalculateAddressBalance ext a addr confirms =
     (case GetCurBlock ext of (bs, err) \<Rightarrow>
        if bs_Height bs = BlockHeightUnknown ext \<or> err \<noteq> None then Float_zero
        else Satoshi_as_BTC
          (CalculateAddressBalance_loop (bs_Height bs) addr confirms (UtxoStore_s a) 0))"

section \<open>Writing to disk\<close>

text \<open>
  Modelled from the spec: \<open>Account.writeDirtyToDisk\<close> is a method of this repository
  that is not in account.go. The specification gives its contract: the flush is "flush if
  dirty" (flushing unmodified state is a no-op), "a successful flush clears" the dirty
  flags, and after a failed flush "in-memory state remains authoritative and the dirty flag
  remains set". Whether the write itself fails is decided by the disk, \<open>disk_write\<close>.
\<close>

definition writeDirtyToDisk ::
  "('w, 'r) externals \<Rightarrow> 'w Account \<Rightarrow> error option \<times> 'w Account" where
  "writeDirtyToDisk ext a =
     (if \<not> dirty a \<and> \<not> UtxoStore_dirty a \<and> \<not> TxStore_dirty a then (None, a)
      else case disk_write ext a of
        None \<Rightarrow> (None, a\<lparr>dirty := False, UtxoStore_dirty := False, TxStore_dirty := False\<rparr>)
      | Some e \<Rightarrow> (Some e, a))"

definition emit :: "event list \<Rightarrow> 'w world \<Rightarrow> 'w world" where
  "emit es st = st\<lparr>events := events st @ es\<rparr>"

section \<open>Lock and Unlock\<close>

definition Lock :: "('w, 'r) externals \<Rightarrow> 'w world \<Rightarrow> error option \<times> 'w world" where
  "Lock ext st =
     (let a = account st;
          (err, w1) = wallet_Lock ext (Wallet a);
          st1 = st\<lparr>account := a\<lparr>Wallet := w1\<rparr>\<rparr>;
          st2 = (if err = None
                 then emit [WalletLockStateChange (wallet_Name ext w1) True] st1
                 else st1)
      in (err, st2))"

text \<open>
  \<open>Unlock\<close> ends with \<open>return a.Wallet.Unlock(passphrase)\<close>: a second call of the
  wallet's method, after the one whose result \<open>err\<close> decided the notification.
\<close>

definition Unlock ::
  "('w, 'r) externals \<Rightarrow> bytes \<Rightarrow> int \<Rightarrow> 'w world \<Rightarrow> error option \<times> 'w world" where
  "Unlock ext passphrase timeout st =
     (let a = account st;
          (err, w1) = wallet_Unlock ext passphrase (Wallet a);
          st1 = st\<lparr>account := a\<lparr>Wallet := w1\<rparr>\<rparr>;
          st2 = (if err = None
                 then emit [WalletLockStateChange (wallet_Name ext w1) False] st1
                 else st1);
          (err2, w2) = wallet_Unlock ext passphrase w1
      in (err2, st2\<lparr>account := (account st2)\<lparr>Wallet := w2\<rparr>\<rparr>))"

section \<open>Rollback\<close>




section \<open>AddressUsed\<close>

fun AddressUsed_loop :: "bytes \<Rightarrow> TxRecord list \<Rightarrow> bool" where
  "AddressUsed_loop pkHash [] = False"
| "AddressUsed_loop pkHash (Send stx # rest) = AddressUsed_loop pkHash rest"
| "AddressUsed_loop pkHash (Recv rtx # rest) =
     (if ReceiverHash rtx = pkHash then True else AddressUsed_loop pkHash rest)"

definition AddressUsed :: "'w Account \<Rightarrow> Address \<Rightarrow> bool" where
  "AddressUsed a addr = AddressUsed_loop (ScriptAddress addr) (TxStore_s a)"

section \<open>History queries\<close>

text \<open>
  Modelled from the spec: \<open>tx.SendTx.TxInfo\<close> is not in account.go. The specification
  says that a send record "expands into one detail row per output"; the row of one output
  is built by \<open>SendTx_output_info\<close>.
\<close>

definition SendTx_TxInfo ::
  "('w, 'r) externals \<Rightarrow> SendTx \<Rightarrow> string \<Rightarrow> int32 \<Rightarrow> nat \<Rightarrow> 'r list" where
  "SendTx_TxInfo ext e acct curheight net =
     map (\<lambda>out. SendTx_output_info ext e out acct curheight net) (Receivers e)"

text \<open>The body of the type switch: the rows one record adds to \<open>txInfoList\<close>.\<close>

definition TxInfo_rows ::
  "('w, 'r) externals \<Rightarrow> 'w Account \<Rightarrow> BlockStamp \<Rightarrow> TxRecord \<Rightarrow> 'r list" where
  "TxInfo_rows ext a bs rec =
     (case rec of
        Send e \<Rightarrow> SendTx_TxInfo ext e (name a) (bs_Height bs) (wallet_Net ext (Wallet a))
      | Recv e \<Rightarrow> [RecvTx_TxInfo ext e (name a) (bs_Height bs) (wallet_Net ext (Wallet a))])"

text \<open>
  The loop \<open>for i := len(a.TxStore.s) - 1; i >= from && i >= lastLookupIdx; i--\<close>.
  Indexing \<open>a.TxStore.s[i]\<close> outside the slice panics. The decrement cannot overflow,
  since it happens only after an index \<open>0 \<le> i\<close> was read.
\<close>

function ListTransactions_loop ::
  "('w, 'r) externals \<Rightarrow> 'w Account \<Rightarrow> BlockStamp \<Rightarrow> int \<Rightarrow> int \<Rightarrow> int \<Rightarrow> 'r list
     \<Rightarrow> error + 'r list" where
  "ListTransactions_loop ext a bs from lastLookupIdx i txInfoList =
     (if from \<le> i \<and> lastLookupIdx \<le> i then
        (if 0 \<le> i \<and> i < int (length (TxStore_s a)) then
           ListTransactions_loop ext a bs from lastLookupIdx (i - 1)
             (txInfoList @ TxInfo_rows ext a bs (TxStore_s a ! nat i))
         else Inl PanicIndexOutOfRange)
      else Inr txInfoList)"
  by pat_completeness auto
termination
  by (relation "measure (\<lambda>(ext, a, bs, from, lastLookupIdx, i, txInfoList). nat (i + 1))") auto

declare ListTransactions_loop.simps [simp del]

definition ListTransactions ::
  "('w, 'r) externals \<Rightarrow> 'w Account \<Rightarrow> int \<Rightarrow> int \<Rightarrow> error + 'r list" where
  "ListTransactions ext a from count =
     (case GetCurBlock ext of (bs, err) \<Rightarrow>
        (case err of
           Some e \<Rightarrow> Inl e
         | None \<Rightarrow>
             (let lastLookupIdx = wrap_int (int (length (TxStore_s a)) - count)
              in ListTransactions_loop ext a bs from lastLookupIdx
                   (int (length (TxStore_s a)) - 1) [])))"

fun ListAddressTransactions_loop ::
  "('w, 'r) externals \<Rightarrow> 'w Account \<Rightarrow> BlockStamp \<Rightarrow> bytes set \<Rightarrow> TxRecord list \<Rightarrow> 'r list
     \<Rightarrow> 'r list" where
  "ListAddressTransactions_loop ext a bs pkHashes [] txInfoList = txInfoList"
| "ListAddressTransactions_loop ext a bs pkHashes (Send stx # rest) txInfoList =
     ListAddressTransactions_loop ext a bs pkHashes rest txInfoList"
| "ListAddressTransactions_loop ext a bs pkHashes (Recv rtx # rest) txInfoList =
     ListAddressTransactions_loop ext a bs pkHashes rest
       (if ReceiverHash rtx \<in> pkHashes
        then txInfoList @
          [RecvTx_TxInfo ext rtx (name a) (bs_Height bs) (wallet_Net ext (Wallet a))]
        else txInfoList)"

definition ListAddressTransactions ::
  "('w, 'r) externals \<Rightarrow> 'w Account \<Rightarrow> bytes set \<Rightarrow> error + 'r list" where
  "ListAddressTransactions ext a pkHashes =
     (case GetCurBlock ext of (bs, err) \<Rightarrow>
        (case err of
           Some e \<Rightarrow> Inl e
         | None \<Rightarrow> Inr (ListAddressTransactions_loop ext a bs pkHashes (TxStore_s a) [])))"

text \<open>The loop \<open>for i := len(a.TxStore.s) - 1; i >= 0; i--\<close>.\<close>

function ListAllTransactions_loop ::
  "('w, 'r) externals \<Rightarrow> 'w Account \<Rightarrow> BlockStamp \<Rightarrow> int \<Rightarrow> 'r list \<Rightarrow> error + 'r list" where
  "ListAllTransactions_loop ext a bs i txInfoList =
     (if 0 \<le> i then
        (if i < int (length (TxStore_s a)) then
           ListAllTransactions_loop ext a bs (i - 1)
             (txInfoList @ TxInfo_rows ext a bs (TxStore_s a ! nat i))
         else Inl PanicIndexOutOfRange)
      else Inr txInfoList)"
  by pat_completeness auto
termination
  by (relation "measure (\<lambda>(ext, a, bs, i, txInfoList). nat (i + 1))") auto

declare ListAllTransactions_loop.simps [simp del]

definition ListAllTransactions ::
  "('w, 'r) externals \<Rightarrow> 'w Account \<Rightarrow> error + 'r list" where
  "ListAllTransactions ext a =
     (case GetCurBlock ext of (bs, err) \<Rightarrow>
        (case err of
           Some e \<Rightarrow> Inl e
         | None \<Rightarrow> ListAllTransactions_loop ext a bs (int (length (TxStore_s a)) - 1) []))"

section \<open>Issuing and importing addresses\<close>

definition ReqNewTxsForAddress ::
  "('w, 'r) externals \<Rightarrow> Address \<Rightarrow> 'w world \<Rightarrow> 'w world" where
  "ReqNewTxsForAddress ext addr st =
     (if \<not> isPubKeyHash addr then st
      else let st1 = emit [LogDebug ''Requesting notifications of TXs sending to address %v'',
                           NewTXsRequest [EncodeAddress addr]] st
           in if NotifyNewTXs ext [EncodeAddress addr] \<noteq> None
              then emit [LogError ''Unable to request transaction updates for address.''] st1
              else st1)"

definition NewAddress ::
  "('w, 'r) externals \<Rightarrow> 'w world \<Rightarrow> (error + Address) \<times> 'w world" where
  "NewAddress ext st =
     (case GetCurBlock ext of (bs, err) \<Rightarrow>
        (case err of
           Some e \<Rightarrow> (Inl e, st)
         | None \<Rightarrow>
             (case NextChainedAddress ext bs (Wallet (account st)) of
                (Inl e, w1) \<Rightarrow> (Inl e, st\<lparr>account := (account st)\<lparr>Wallet := w1\<rparr>\<rparr>)
              | (Inr addr, w1) \<Rightarrow>
                  (let a1 = (account st)\<lparr>Wallet := w1, dirty := True\<rparr>;
                       (werr, a2) = writeDirtyToDisk ext a1;
                       st1 = st\<lparr>account := a2\<rparr>;
                       st2 = (if werr \<noteq> None
                              then emit [LogError ''cannot sync dirty wallet: %v''] st1
                              else st1);
                       st3 = MarkAddressForAccount (EncodeAddress addr)
                               (wallet_Name ext (Wallet a2)) st2
                   in (Inr addr, ReqNewTxsForAddress ext addr st3)))))"

definition CurrentAddress ::
  "('w, 'r) externals \<Rightarrow> 'w world \<Rightarrow> (error + Address) \<times> 'w world" where
  "CurrentAddress ext st =
     (let addr = LastChainedAddress ext (Wallet (account st))
      in if AddressUsed (account st) addr then NewAddress ext st else (Inr addr, st))"

definition ImportWIFPrivateKey ::
  "('w, 'r) externals \<Rightarrow> string \<Rightarrow> BlockStamp \<Rightarrow> 'w world \<Rightarrow> (error + string) \<times> 'w world" where
  "ImportWIFPrivateKey ext wif bs st =
     (case DecodePrivateKey ext wif of
        Inl e \<Rightarrow> (Inl e, st)
      | Inr (privkey, net, compressed) \<Rightarrow>
          if net \<noteq> wallet_Net ext (Wallet (account st)) then (Inl ErrWrongNetwork, st)
          else
            (case wallet_ImportPrivateKey ext privkey compressed bs (Wallet (account st)) of
               (Inl e, w1) \<Rightarrow> (Inl e, st\<lparr>account := (account st)\<lparr>Wallet := w1\<rparr>\<rparr>)
             | (Inr addr, w1) \<Rightarrow>
                 (let a1 = (account st)\<lparr>Wallet := w1, dirty := True\<rparr>;
                      (werr, a2) = writeDirtyToDisk ext a1;
                      st1 = st\<lparr>account := a2\<rparr>
                  in case werr of
                       Some e \<Rightarrow>
                         (Inl (ErrImportFailed e),
                          emit [LogError ''cannot write dirty wallet: %v''] st1)
                     | None \<Rightarrow>
                         (Inr addr,
                          emit [LogInfo ''Imported payment address %v'']
                            (MarkAddressForAccount addr (wallet_Name ext (Wallet a2)) st1)))))"

definition ImportPrivKey ::
  "('w, 'r) externals \<Rightarrow> string \<Rightarrow> bool \<Rightarrow> 'w world \<Rightarrow> error option \<times> 'w world" where
  "ImportPrivKey ext wif rescan st =
     (let bs = \<lparr>bs_Height = 0, bs_Hash = []\<rparr>
      in case ImportWIFPrivateKey ext wif bs st of
           (Inl e, st1) \<Rightarrow> (Some e, st1)
         | (Inr addr, st1) \<Rightarrow>
             if rescan then
               (let st2 = emit [RescanRequest (bs_Height bs) [addr]] st1;
                    (werr, a2) = writeDirtyToDisk ext (account st2)
                in (None, st2\<lparr>account := a2\<rparr>))
             else (None, st1))"

section \<open>The specification's reading of \<open>ListRecent\<close>\<close>

text \<open>
  The specification describes \<open>ListRecent(from, count)\<close> as the rows of "the
  most-recently-appended \<open>count\<close> records starting at logical index \<open>from\<close> from the
  end, in reverse insertion order": skip the \<open>from\<close> most recent records, then take
  \<open>count\<close>. This definition follows those words, not the code.
\<close>

definition ListRecent_spec ::
  "('w, 'r) externals \<Rightarrow> 'w Account \<Rightarrow> BlockStamp \<Rightarrow> int \<Rightarrow> int \<Rightarrow> 'r list" where
  "ListRecent_spec ext a bs from count =
     concat (map (TxInfo_rows ext a bs) (take (nat count) (drop (nat from) (rev (TxStore_s a)))))"

section \<open>A concrete account\<close>

text \<open>
  A small wallet, environment and account on which the operations are evaluated. The
  wallet counts the addresses it has chained and the calls of its \<open>Unlock\<close>; a detail row
  is the pair of a transaction id and an address hash.
\<close>

record demo_wallet =
  chain_index :: nat
  unlock_calls :: nat

definition demo_address :: "nat \<Rightarrow> Address" where
  "demo_address n =
     \<lparr>ScriptAddress = [of_nat n], EncodeAddress = ''addr'' @ replicate n (CHR ''x''),
      isPubKeyHash = True\<rparr>"

definition demo_ext :: "(demo_wallet, bytes \<times> bytes) externals" where
  "demo_ext =
     \<lparr>GetCurBlock = (\<lparr>bs_Height = 100, bs_Hash = [7]\<rparr>, None),
      BlockHeightUnknown = - 1,
      wallet_Lock = (\<lambda>w. (None, w)),
      wallet_Unlock = (\<lambda>p w.
        (if p = [1, 2, 3] then None else Some (ErrExternal ''wrong passphrase''),
         w\<lparr>unlock_calls := Suc (unlock_calls w)\<rparr>)),
      wallet_Name = (\<lambda>w. ''savings''),
      wallet_Net = (\<lambda>w. 1),
      LastChainedAddress = (\<lambda>w. demo_address (chain_index w)),
      NextChainedAddress = (\<lambda>bs w.
        (Inr (demo_address (Suc (chain_index w))), w\<lparr>chain_index := Suc (chain_index w)\<rparr>)),
      wallet_ImportPrivateKey = (\<lambda>privkey compressed bs w. (Inr ''imported'', w)),
      DecodePrivateKey = (\<lambda>wif.
        if wif = ''mainkey'' then Inr ([1], 1, True)
        else if wif = ''testkey'' then Inr ([2], 2, True)
        else Inl (ErrExternal ''malformed private key'')),
      UtxoStore_Rollback = (\<lambda>height hash s. (s, False)),
      TxStore_Rollback = (\<lambda>height hash s. (s, False)),
      RecvTx_TxInfo = (\<lambda>e acct curheight net. (recv_TxID e, ReceiverHash e)),
      SendTx_output_info = (\<lambda>e out acct curheight net. (send_TxID e, fst out)),
      disk_write = (\<lambda>a. None),
      NotifyNewTXs = (\<lambda>addrs. None)\<rparr>"

text \<open>The same environment with a disk that refuses every write.\<close>

definition demo_ext_disk_fails :: "(demo_wallet, bytes \<times> bytes) externals" where
  "demo_ext_disk_fails = demo_ext\<lparr>disk_write := (\<lambda>a. Some (ErrExternal ''disk full''))\<rparr>"

text \<open>The same environment with a provider that returns an error.\<close>

definition demo_ext_no_block :: "(demo_wallet, bytes \<times> bytes) externals" where
  "demo_ext_no_block =
     demo_ext\<lparr>GetCurBlock :=
       (\<lparr>bs_Height = - 1, bs_Hash = []\<rparr>, Some (ErrExternal ''current block unavailable''))\<rparr>"

text \<open>The same environment with a provider that returns the sentinel and no error.\<close>

definition demo_ext_unknown_height :: "(demo_wallet, bytes \<times> bytes) externals" where
  "demo_ext_unknown_height =
     demo_ext\<lparr>GetCurBlock := (\<lparr>bs_Height = - 1, bs_Hash = []\<rparr>, None)\<rparr>"

definition demo_utxos :: "Utxo list" where
  "demo_utxos =
     [\<lparr>Out = \<lparr>op_Hash = [1], op_Index = 0\<rparr>, AddrHash = [0], Amt = 50, Height = 100\<rparr>,
      \<lparr>Out = \<lparr>op_Hash = [2], op_Index = 1\<rparr>, AddrHash = [0], Amt = 7, Height = - 1\<rparr>,
      \<lparr>Out = \<lparr>op_Hash = [3], op_Index = 0\<rparr>, AddrHash = [5], Amt = 300, Height = 98\<rparr>]"

definition demo_txs :: "TxRecord list" where
  "demo_txs =
     [Recv \<lparr>ReceiverHash = [0], recv_Amt = 50, recv_Height = 100, recv_TxID = [1]\<rparr>,
      Send \<lparr>Receivers = [([8], 10), ([9], 20)], send_Height = 99, send_TxID = [2]\<rparr>,
      Recv \<lparr>ReceiverHash = [5], recv_Amt = 300, recv_Height = 98, recv_TxID = [3]\<rparr>,
      Recv \<lparr>ReceiverHash = [0], recv_Amt = 7, recv_Height = - 1, recv_TxID = [4]\<rparr>,
      Send \<lparr>Receivers = [([6], 1)], send_Height = - 1, send_TxID = [5]\<rparr>]"

definition demo_account :: "demo_wallet Account" where
  "demo_account =
     \<lparr>Wallet = \<lparr>chain_index = 0, unlock_calls = 0\<rparr>, name = ''savings'', dirty = False,
      fullRescan = False, UtxoStore_dirty = False, UtxoStore_s = demo_utxos,
      TxStore_dirty = False, TxStore_s = demo_txs\<rparr>"

definition demo_world :: "demo_wallet world" where
  "demo_world = \<lparr>addressAccountMap = Map.empty, account = demo_account, events = []\<rparr>"

section \<open>Balances sum the counted outputs\<close>

lemma CalculateBalance_loop_sum:
  "CalculateBalance_loop H confirms us bal =
     bal + sum_list (map Amt (filter (counted H confirms) us))"
  by (induction us arbitrary: bal) (simp_all add: add.assoc)

lemma CalculateAddressBalance_loop_sum:
  "CalculateAddressBalance_loop H addr confirms us bal =
     bal + sum_list (map Amt (filter (\<lambda>u. counted H confirms u \<and> ScriptAddress addr = AddrHash u) us))"
  by (induction us arbitrary: bal) (simp_all add: add.assoc)

lemma sint_no_overflow:
  fixes H h :: int32
  assumes "- (2 ^ 31) \<le> sint H - sint h + 1" "sint H - sint h + 1 < 2 ^ 31"
  shows "sint (H - h + 1) = sint H - sint h + 1"
proof -
  have "H - h + 1 = word_of_int (sint H - sint h + 1)" by simp
  then have "sint (H - h + 1) = signed_take_bit 31 (sint H - sint h + 1)"
    by (simp only: sint_sbintrunc' ) simp
  also have "\<dots> = sint H - sint h + 1"
    using assms by (simp add: signed_take_bit_int_eq_self)
  finally show ?thesis .
qed


text \<open>
  Claim C1. With a valid best block \<open>bs\<close> (no error from the provider and a height other
  than the sentinel), \<open>CalculateBalance\<close> returns the quotient of the satoshi total of
  exactly the entries passing the confirmation filter: with \<open>confirms = 0\<close> every entry,
  unconfirmed ones included; with \<open>confirms \<ge> 1\<close> the entries with \<open>Height \<noteq> -1\<close> and
  \<open>bs.Height - Height + 1 \<ge> confirms\<close>. The total is a \<open>uint64\<close> sum and the
  confirmation count is computed in \<open>int32\<close>, as the code does; where that count does not
  leave the \<open>int32\<close> range it is the integer \<open>bs.Height - Height + 1\<close>. An entry at the
  best block's height has exactly one confirmation.
\<close>

theorem CalculateBalance_sums_counted:
  assumes "GetCurBlock ext = (bs, None)" and "bs_Height bs \<noteq> BlockHeightUnknown ext"
  shows "CalculateBalance ext a 0 = Satoshi_as_BTC (sum_list (map Amt (UtxoStore_s a)))
    \<and> (1 \<le> confirms \<longrightarrow>
         CalculateBalance ext a confirms =
           Satoshi_as_BTC (sum_list (map Amt
             (filter (\<lambda>u. Height u \<noteq> - 1 \<and> confirms \<le> sint (bs_Height bs - Height u + 1))
                (UtxoStore_s a)))))
    \<and> (1 \<le> confirms \<longrightarrow>
         (\<forall>u \<in> set (UtxoStore_s a).
            - (2 ^ 31) \<le> sint (bs_Height bs) - sint (Height u) + 1 \<and>
            sint (bs_Height bs) - sint (Height u) + 1 < 2 ^ 31) \<longrightarrow>
         CalculateBalance ext a confirms =
           Satoshi_as_BTC (sum_list (map Amt
             (filter (\<lambda>u. Height u \<noteq> - 1 \<and> confirms \<le> sint (bs_Height bs) - sint (Height u) + 1)
                (UtxoStore_s a)))))
    \<and> sint (bs_Height bs - bs_Height bs + 1) = 1"
proof (intro conjI impI)
  show "CalculateBalance ext a 0 = Satoshi_as_BTC (sum_list (map Amt (UtxoStore_s a)))"
    using assms by (simp add: CalculateBalance_def CalculateBalance_loop_sum counted_def)
next
  assume c: "1 \<le> confirms"
  then have "counted (bs_Height bs) confirms =
      (\<lambda>u. Height u \<noteq> - 1 \<and> confirms \<le> sint (bs_Height bs - Height u + 1))"
    by (auto simp: counted_def fun_eq_iff)
  then show "CalculateBalance ext a confirms =
           Satoshi_as_BTC (sum_list (map Amt
             (filter (\<lambda>u. Height u \<noteq> - 1 \<and> confirms \<le> sint (bs_Height bs - Height u + 1))
                (UtxoStore_s a))))"
    using assms by (simp add: CalculateBalance_def CalculateBalance_loop_sum)
next
  assume c: "1 \<le> confirms"
    and r: "\<forall>u \<in> set (UtxoStore_s a).
            - (2 ^ 31) \<le> sint (bs_Height bs) - sint (Height u) + 1 \<and>
            sint (bs_Height bs) - sint (Height u) + 1 < 2 ^ 31"
  have "filter (counted (bs_Height bs) confirms) (UtxoStore_s a) =
        filter (\<lambda>u. Height u \<noteq> - 1 \<and> confirms \<le> sint (bs_Height bs) - sint (Height u) + 1)
                (UtxoStore_s a)"
  proof (rule filter_cong [OF refl])
    fix u assume "u \<in> set (UtxoStore_s a)"
    with r have "sint (bs_Height bs - Height u + 1) = sint (bs_Height bs) - sint (Height u) + 1"
      by (intro sint_no_overflow) auto
    with c show "counted (bs_Height bs) confirms u =
        (Height u \<noteq> - 1 \<and> confirms \<le> sint (bs_Height bs) - sint (Height u) + 1)"
      by (simp add: counted_def)
  qed
  then show "CalculateBalance ext a confirms =
           Satoshi_as_BTC (sum_list (map Amt
             (filter (\<lambda>u. Height u \<noteq> - 1 \<and> confirms \<le> sint (bs_Height bs) - sint (Height u) + 1)
                (UtxoStore_s a))))"
    using assms by (simp add: CalculateBalance_def CalculateBalance_loop_sum)
next
  show "sint (bs_Height bs - bs_Height bs + 1) = 1" by simp
qed

theorem CalculateBalance_sums_counted_witness:
  "CalculateBalance demo_ext demo_account 0 = Satoshi_as_BTC 357
   \<and> CalculateBalance demo_ext demo_account 1 = Satoshi_as_BTC 350
   \<and> CalculateBalance demo_ext demo_account 2 = Satoshi_as_BTC 300"
proof -
  have g: "GetCurBlock demo_ext = (\<lparr>bs_Height = 100, bs_Hash = [7]\<rparr>, None)"
    by (simp add: demo_ext_def)
  have u: "bs_Height \<lparr>bs_Height = 100, bs_Hash = [7]\<rparr> \<noteq> BlockHeightUnknown demo_ext"
    by (simp add: demo_ext_def)
  note t = CalculateBalance_sums_counted [OF g u, of demo_account]
  from t [THEN conjunct1]
  have "CalculateBalance demo_ext demo_account 0 = Satoshi_as_BTC 357"
    by (simp add: demo_account_def demo_utxos_def)
  moreover from t [of 1, THEN conjunct2, THEN conjunct1]
  have "CalculateBalance demo_ext demo_account 1 = Satoshi_as_BTC 350"
    by (simp add: demo_account_def demo_utxos_def)
  moreover from t [of 2, THEN conjunct2, THEN conjunct1]
  have "CalculateBalance demo_ext demo_account 2 = Satoshi_as_BTC 300"
    by (simp add: demo_account_def demo_utxos_def)
  ultimately show ?thesis by simp
qed

section \<open>The indices \<open>ListTransactions\<close> reads\<close>

lemma ListTransactions_loop_stop:
  "\<not> (from \<le> i \<and> lastLookupIdx \<le> i) \<Longrightarrow>
   ListTransactions_loop ext a bs from lastLookupIdx i acc = Inr acc"
  by (subst ListTransactions_loop.simps) auto

lemma ListTransactions_loop_step:
  "from \<le> i \<Longrightarrow> lastLookupIdx \<le> i \<Longrightarrow> 0 \<le> i \<Longrightarrow> i < int (length (TxStore_s a)) \<Longrightarrow>
   ListTransactions_loop ext a bs from lastLookupIdx i acc =
     ListTransactions_loop ext a bs from lastLookupIdx (i - 1)
       (acc @ TxInfo_rows ext a bs (TxStore_s a ! nat i))"
  by (subst ListTransactions_loop.simps) auto


lemma ListTransactions_loop_rows:
  "0 \<le> max from lastLookupIdx \<Longrightarrow> i < int (length (TxStore_s a)) \<Longrightarrow>
   ListTransactions_loop ext a bs from lastLookupIdx i acc =
     Inr (acc @ concat (map (\<lambda>j. TxInfo_rows ext a bs (TxStore_s a ! nat j))
                          (rev [max from lastLookupIdx..i])))"
proof (induction ext a bs "from" lastLookupIdx i acc rule: ListTransactions_loop.induct)
  case (1 ext a bs "from" lastLookupIdx i txInfoList)
  show ?case
  proof (cases "from \<le> i \<and> lastLookupIdx \<le> i")
    case True
    with "1.prems" have rng: "0 \<le> i \<and> i < int (length (TxStore_s a))" by auto
    have up: "[max from lastLookupIdx..i] = [max from lastLookupIdx..i - 1] @ [i]"
      using True by (simp add: upto_rec2)
    have "ListTransactions_loop ext a bs from lastLookupIdx i txInfoList =
       ListTransactions_loop ext a bs from lastLookupIdx (i - 1)
         (txInfoList @ TxInfo_rows ext a bs (TxStore_s a ! nat i))"
      using True rng by (intro ListTransactions_loop_step) auto
    also have "\<dots> =
       Inr ((txInfoList @ TxInfo_rows ext a bs (TxStore_s a ! nat i)) @
            concat (map (\<lambda>j. TxInfo_rows ext a bs (TxStore_s a ! nat j))
                          (rev [max from lastLookupIdx..i - 1])))"
      using "1.IH" [OF True rng] "1.prems" by simp
    also have "\<dots> =
       Inr (txInfoList @ concat (map (\<lambda>j. TxInfo_rows ext a bs (TxStore_s a ! nat j))
                          (rev [max from lastLookupIdx..i])))"
      by (subst up) simp
    finally show ?thesis .
  next
    case False
    then have "[max from lastLookupIdx..i] = []" by auto
    with False show ?thesis
      by (simp add: ListTransactions_loop_stop)
  qed
qed


lemma nth_upto_drop:
  "0 \<le> lo \<Longrightarrow> map (\<lambda>j. xs ! nat j) [lo..int (length xs) - 1] = drop (nat lo) xs"
proof -
  assume lo: "0 \<le> lo"
  have "map nat [lo..int (length xs) - 1] = [nat lo..<length xs]"
  proof (rule nth_equalityI)
    show "length (map nat [lo..int (length xs) - 1]) = length [nat lo..<length xs]"
      using lo by auto
  next
    fix k assume "k < length (map nat [lo..int (length xs) - 1])"
    then show "map nat [lo..int (length xs) - 1] ! k = [nat lo..<length xs] ! k"
      using lo by (auto simp: nat_add_distrib)
  qed
  then have "map (\<lambda>j. xs ! nat j) [lo..int (length xs) - 1] = map ((!) xs) [nat lo..<length xs]"
    by (metis (no_types, lifting) map_map o_def map_eq_conv)
  also have "\<dots> = drop (nat lo) xs"
    by (metis drop_map drop_upt map_nth add_0)
  finally show ?thesis .
qed

lemma wrap_int_id: "- (2 ^ 63) \<le> x \<Longrightarrow> x < 2 ^ 63 \<Longrightarrow> wrap_int x = x"
  by (simp add: wrap_int_def)

lemma ListTransactions_rows:
  assumes "GetCurBlock ext = (bs, None)"
    and "- (2 ^ 63) \<le> int (length (TxStore_s a)) - count"
    and "int (length (TxStore_s a)) - count < 2 ^ 63"
    and "0 \<le> max from (int (length (TxStore_s a)) - count)"
  shows "ListTransactions ext a from count =
     Inr (concat (map (\<lambda>i. TxInfo_rows ext a bs (TxStore_s a ! nat i))
       (rev [max from (int (length (TxStore_s a)) - count)..int (length (TxStore_s a)) - 1])))"
  using assms
  by (simp add: ListTransactions_def wrap_int_id ListTransactions_loop_rows)


lemma rows_by_index:
  "0 \<le> lo \<Longrightarrow>
   concat (map (\<lambda>i. f (xs ! nat i)) (rev [lo..int (length xs) - 1])) =
   concat (map f (rev (drop (nat lo) xs)))"
proof -
  assume lo: "0 \<le> lo"
  have "map (\<lambda>i. f (xs ! nat i)) (rev [lo..int (length xs) - 1]) =
        map f (rev (map (\<lambda>j. xs ! nat j) [lo..int (length xs) - 1]))"
    by (simp add: rev_map o_def)
  then show ?thesis
    by (simp only: nth_upto_drop [OF lo])
qed




section \<open>The records \<open>ListTransactions\<close> returns\<close>

lemma take_recent:
  "0 \<le> count \<Longrightarrow>
   rev (drop (nat (max 0 (int (length xs) - count))) xs) = take (nat count) (rev xs)"
proof (cases "int (length xs) \<le> count")
  case True
  assume "0 \<le> count"
  with True have "max 0 (int (length xs) - count) = 0" by simp
  moreover from True have "length (rev xs) \<le> nat count" by simp
  ultimately show ?thesis by (simp only: take_all) simp
next
  case False
  assume c: "0 \<le> count"
  with False have "nat (max 0 (int (length xs) - count)) = length xs - nat count" by simp
  moreover from False c have "length xs - (length xs - nat count) = nat count" by simp
  ultimately show ?thesis by (simp add: rev_drop)
qed


text \<open>
  Claim C2, as amended. With a best block, \<open>from \<ge> 0\<close> and \<open>n - count\<close> inside the range
  of \<open>int\<close>, \<open>ListTransactions(from, count)\<close> returns the rows of the records at the
  insertion indices \<open>max(from, n - count), ..., n - 1\<close> of the store, most recent first:
  \<open>from\<close> is a lower bound on the insertion index, not a number of recent records to
  skip. With \<open>from = 0\<close> and \<open>count \<ge> 0\<close> these are the \<open>count\<close> most recently appended
  records, which is what the specification's \<open>ListRecent\<close> gives there. A send record
  contributes one row per output and a receive record exactly one. On a store of five
  records, \<open>ListTransactions(0, 3)\<close> gives the rows of the three most recent ones, most
  recent first.
\<close>

theorem ListTransactions_most_recent:
  assumes "GetCurBlock ext = (bs, None)"
    and "- (2 ^ 63) \<le> int (length (TxStore_s a)) - count"
    and "int (length (TxStore_s a)) - count < 2 ^ 63"
    and "0 \<le> from"
  shows "ListTransactions ext a from count =
           Inr (concat (map (TxInfo_rows ext a bs)
             (rev (drop (nat (max from (int (length (TxStore_s a)) - count))) (TxStore_s a)))))
       \<and> (from = 0 \<and> 0 \<le> count \<longrightarrow>
            ListTransactions ext a from count =
              Inr (concat (map (TxInfo_rows ext a bs) (take (nat count) (rev (TxStore_s a)))))
            \<and> ListTransactions ext a from count = Inr (ListRecent_spec ext a bs from count))
       \<and> length (TxInfo_rows ext a bs (Send e)) = length (Receivers e)
       \<and> length (TxInfo_rows ext a bs (Recv r)) = 1"
proof -
  from assms(4) have m: "0 \<le> max from (int (length (TxStore_s a)) - count)" by simp
  have rows: "ListTransactions ext a from count =
           Inr (concat (map (TxInfo_rows ext a bs)
             (rev (drop (nat (max from (int (length (TxStore_s a)) - count))) (TxStore_s a)))))"
    using ListTransactions_rows [OF assms(1-3) m] rows_by_index [OF m] by simp
  have recent: "ListTransactions ext a from count =
              Inr (concat (map (TxInfo_rows ext a bs) (take (nat count) (rev (TxStore_s a)))))"
    if "from = 0 \<and> 0 \<le> count"
    using rows that take_recent [of count "TxStore_s a"] by simp
  have spec: "ListTransactions ext a from count = Inr (ListRecent_spec ext a bs from count)"
    if "from = 0 \<and> 0 \<le> count"
    using recent [OF that] that by (simp add: ListRecent_spec_def)
  have "length (TxInfo_rows ext a bs (Send e)) = length (Receivers e)"
    and "length (TxInfo_rows ext a bs (Recv r)) = 1"
    by (simp_all add: TxInfo_rows_def SendTx_TxInfo_def)
  with rows recent spec show ?thesis by blast
qed

theorem ListTransactions_most_recent_witness:
  "ListTransactions demo_ext demo_account 0 3 = Inr [([5], [6]), ([4], [0]), ([3], [5])]"
proof -
  have g: "GetCurBlock demo_ext = (\<lparr>bs_Height = 100, bs_Hash = [7]\<rparr>, None)"
    by (simp add: demo_ext_def)
  have a: "- (2 ^ 63) \<le> int (length (TxStore_s demo_account)) - 3"
    and b: "int (length (TxStore_s demo_account)) - 3 < 2 ^ 63"
    by (simp_all add: demo_account_def demo_txs_def)
  have f: "(0::int) \<le> 0" by simp
  from ListTransactions_most_recent [OF g a b f, THEN conjunct2, THEN conjunct1]
  have "ListTransactions demo_ext demo_account 0 3 =
      Inr (concat (map (TxInfo_rows demo_ext demo_account \<lparr>bs_Height = 100, bs_Hash = [7]\<rparr>)
             (take (nat 3) (rev (TxStore_s demo_account)))))"
    by simp
  then show ?thesis
    by (simp add: demo_account_def demo_txs_def TxInfo_rows_def SendTx_TxInfo_def demo_ext_def)
qed

text \<open>
  Claim C2 as stated fails for \<open>from > 0\<close>: on the store of five records,
  \<open>ListTransactions(1, 3)\<close> returns the rows of the fifth, fourth and third record,
  where three records starting at index 1 from the end are the fourth, third and second.
\<close>

theorem ListTransactions_from_is_not_an_offset:
  "ListTransactions demo_ext demo_account 1 3 = Inr [([5], [6]), ([4], [0]), ([3], [5])]
   \<and> ListRecent_spec demo_ext demo_account (fst (GetCurBlock demo_ext)) 1 3 =
       [([4], [0]), ([3], [5]), ([2], [8]), ([2], [9])]
   \<and> ListTransactions demo_ext demo_account 1 3 \<noteq>
       Inr (ListRecent_spec demo_ext demo_account (fst (GetCurBlock demo_ext)) 1 3)"
  by (simp add: ListTransactions_def ListRecent_spec_def demo_ext_def demo_account_def
      demo_txs_def wrap_int_def ListTransactions_loop.simps TxInfo_rows_def SendTx_TxInfo_def)

section \<open>Queries without a best block\<close>

lemma ListAllTransactions_loop_step:
  "0 \<le> i \<Longrightarrow> i < int (length (TxStore_s a)) \<Longrightarrow>
   ListAllTransactions_loop ext a bs i acc =
     ListAllTransactions_loop ext a bs (i - 1) (acc @ TxInfo_rows ext a bs (TxStore_s a ! nat i))"
  by (subst ListAllTransactions_loop.simps) auto

lemma ListAllTransactions_loop_stop:
  "i < 0 \<Longrightarrow> ListAllTransactions_loop ext a bs i acc = Inr acc"
  by (subst ListAllTransactions_loop.simps) auto

lemma ListAllTransactions_loop_rows:
  "i < int (length (TxStore_s a)) \<Longrightarrow>
   ListAllTransactions_loop ext a bs i acc =
     Inr (acc @ concat (map (\<lambda>j. TxInfo_rows ext a bs (TxStore_s a ! nat j)) (rev [0..i])))"
proof (induction ext a bs i acc rule: ListAllTransactions_loop.induct)
  case (1 ext a bs i txInfoList)
  show ?case
  proof (cases "0 \<le> i")
    case True
    have up: "[0..i] = [0..i - 1] @ [i]"
      using True by (simp add: upto_rec2)
    have "ListAllTransactions_loop ext a bs i txInfoList =
       ListAllTransactions_loop ext a bs (i - 1)
         (txInfoList @ TxInfo_rows ext a bs (TxStore_s a ! nat i))"
      using True "1.prems" by (intro ListAllTransactions_loop_step) auto
    also have "\<dots> =
       Inr ((txInfoList @ TxInfo_rows ext a bs (TxStore_s a ! nat i)) @
            concat (map (\<lambda>j. TxInfo_rows ext a bs (TxStore_s a ! nat j)) (rev [0..i - 1])))"
      using "1.IH" [OF True "1.prems"] "1.prems" by simp
    also have "\<dots> =
       Inr (txInfoList @ concat (map (\<lambda>j. TxInfo_rows ext a bs (TxStore_s a ! nat j))
                          (rev [0..i])))"
      by (subst up) simp
    finally show ?thesis .
  next
    case False
    then have "[0..i] = []" by auto
    with False show ?thesis
      by (simp add: ListAllTransactions_loop_stop)
  qed
qed

lemma ListAllTransactions_rows:
  "GetCurBlock ext = (bs, None) \<Longrightarrow>
   ListAllTransactions ext a = Inr (concat (map (TxInfo_rows ext a bs) (rev (TxStore_s a))))"
  using rows_by_index [of 0 "TxInfo_rows ext a bs" "TxStore_s a"]
  by (simp add: ListAllTransactions_def ListAllTransactions_loop_rows)

text \<open>
  Claim C4, as amended. When the provider returns an error or the sentinel height, both
  balance queries return \<open>0\<close>. The three history queries return the provider's error
  exactly when it returns one; the sentinel height is not checked by them, so with the
  sentinel and no error \<open>ListAllTransactions\<close> and \<open>ListAddressTransactions\<close> return rows
  and \<open>ListTransactions\<close> runs its loop, all built against that height.
\<close>

theorem unknown_block_balances_and_history:
  "(GetCurBlock ext = (bs, err) \<and> (err \<noteq> None \<or> bs_Height bs = BlockHeightUnknown ext) \<longrightarrow>
      CalculateBalance ext a confirms = Float_zero \<and>
      CalculateAddressBalance ext a addr confirms = Float_zero)
   \<and> (GetCurBlock ext = (bs, Some e) \<longrightarrow>
      ListTransactions ext a from count = Inl e \<and>
      ListAddressTransactions ext a pkHashes = Inl e \<and>
      ListAllTransactions ext a = Inl e)
   \<and> (GetCurBlock ext = (bs, None) \<longrightarrow>
      ListAllTransactions ext a = Inr (concat (map (TxInfo_rows ext a bs) (rev (TxStore_s a)))) \<and>
      ListAddressTransactions ext a pkHashes =
        Inr (ListAddressTransactions_loop ext a bs pkHashes (TxStore_s a) []) \<and>
      ListTransactions ext a from count =
        ListTransactions_loop ext a bs from
          (wrap_int (int (length (TxStore_s a)) - count)) (int (length (TxStore_s a)) - 1) [])"
proof (intro conjI impI)
  assume "GetCurBlock ext = (bs, err) \<and> (err \<noteq> None \<or> bs_Height bs = BlockHeightUnknown ext)"
  then show "CalculateBalance ext a confirms = Float_zero"
    and "CalculateAddressBalance ext a addr confirms = Float_zero"
    by (auto simp: CalculateBalance_def CalculateAddressBalance_def)
next
  assume "GetCurBlock ext = (bs, Some e)"
  then show "ListTransactions ext a from count = Inl e"
    and "ListAddressTransactions ext a pkHashes = Inl e"
    and "ListAllTransactions ext a = Inl e"
    by (simp_all add: ListTransactions_def ListAddressTransactions_def ListAllTransactions_def)
next
  assume g: "GetCurBlock ext = (bs, None)"
  then show "ListAllTransactions ext a =
      Inr (concat (map (TxInfo_rows ext a bs) (rev (TxStore_s a))))"
    by (rule ListAllTransactions_rows)
  from g show "ListAddressTransactions ext a pkHashes =
        Inr (ListAddressTransactions_loop ext a bs pkHashes (TxStore_s a) [])"
    by (simp add: ListAddressTransactions_def)
  from g show "ListTransactions ext a from count =
        ListTransactions_loop ext a bs from
          (wrap_int (int (length (TxStore_s a)) - count)) (int (length (TxStore_s a)) - 1) []"
    by (simp add: ListTransactions_def)
qed

theorem unknown_block_balances_and_history_witness:
  "CalculateBalance demo_ext_no_block demo_account 0 = Float_zero
   \<and> CalculateAddressBalance demo_ext_unknown_height demo_account (demo_address 0) 1 = Float_zero
   \<and> ListAllTransactions demo_ext_no_block demo_account =
       Inl (ErrExternal ''current block unavailable'')
   \<and> ListTransactions demo_ext_no_block demo_account 0 3 =
       Inl (ErrExternal ''current block unavailable'')"
proof -
  have g: "GetCurBlock demo_ext_no_block =
      (\<lparr>bs_Height = - 1, bs_Hash = []\<rparr>, Some (ErrExternal ''current block unavailable''))"
    by (simp add: demo_ext_no_block_def demo_ext_def)
  have u: "GetCurBlock demo_ext_unknown_height = (\<lparr>bs_Height = - 1, bs_Hash = []\<rparr>, None)"
    and u': "bs_Height \<lparr>bs_Height = - 1, bs_Hash = []\<rparr> = BlockHeightUnknown demo_ext_unknown_height"
    by (simp_all add: demo_ext_unknown_height_def demo_ext_def)
  from unknown_block_balances_and_history [THEN conjunct1, rule_format, of demo_ext_no_block]
    g
  have "CalculateBalance demo_ext_no_block demo_account 0 = Float_zero" by blast
  moreover
  from unknown_block_balances_and_history [THEN conjunct1, rule_format,
      of demo_ext_unknown_height] u u'
  have "CalculateAddressBalance demo_ext_unknown_height demo_account (demo_address 0) 1 = Float_zero"
    by blast
  moreover
  from unknown_block_balances_and_history [THEN conjunct2, THEN conjunct1, rule_format, OF g]
  have "ListAllTransactions demo_ext_no_block demo_account =
       Inl (ErrExternal ''current block unavailable'')"
   and "ListTransactions demo_ext_no_block demo_account 0 3 =
       Inl (ErrExternal ''current block unavailable'')"
    by blast+
  ultimately show ?thesis by blast
qed

text \<open>
  Claim C4 as stated fails for a provider that returns the sentinel height without an
  error: the balance is \<open>0\<close>, and the history queries return rows, not an error.
\<close>

theorem history_ignores_unknown_height:
  "bs_Height (fst (GetCurBlock demo_ext_unknown_height)) =
     BlockHeightUnknown demo_ext_unknown_height
   \<and> snd (GetCurBlock demo_ext_unknown_height) = None
   \<and> CalculateBalance demo_ext_unknown_height demo_account 0 = Float_zero
   \<and> ListAllTransactions demo_ext_unknown_height demo_account =
       Inr [([5], [6]), ([4], [0]), ([3], [5]), ([2], [8]), ([2], [9]), ([1], [0])]
   \<and> ListTransactions demo_ext_unknown_height demo_account 0 1 = Inr [([5], [6])]
   \<and> ListAddressTransactions demo_ext_unknown_height demo_account {[5]} = Inr [([3], [5])]"
  by (simp add: ListTransactions_def ListAllTransactions_def ListAddressTransactions_def
      CalculateBalance_def demo_ext_unknown_height_def demo_ext_def demo_account_def
      demo_txs_def wrap_int_def ListTransactions_loop.simps ListAllTransactions_loop.simps
      TxInfo_rows_def SendTx_TxInfo_def)

section \<open>What the helpers keep\<close>

lemma writeDirtyToDisk_Wallet [simp]: "Wallet (snd (writeDirtyToDisk ext a)) = Wallet a"
  by (simp add: writeDirtyToDisk_def split: option.splits)

lemma writeDirtyToDisk_fails:
  "dirty a \<Longrightarrow> disk_write ext a = Some e \<Longrightarrow> writeDirtyToDisk ext a = (Some e, a)"
  by (simp add: writeDirtyToDisk_def)

lemma ReqNewTxsForAddress_keeps [simp]:
  "addressAccountMap (ReqNewTxsForAddress ext addr st) = addressAccountMap st"
  "account (ReqNewTxsForAddress ext addr st) = account st"
  by (simp_all add: ReqNewTxsForAddress_def emit_def Let_def)

lemma emit_keeps [simp]:
  "addressAccountMap (emit es st) = addressAccountMap st"
  "account (emit es st) = account st"
  "events (emit es st) = events st @ es"
  by (simp_all add: emit_def)

lemma Lookup_Mark [simp]:
  "addressAccountMap (MarkAddressForAccount k v st) = (addressAccountMap st)(k \<mapsto> v)"
  "account (MarkAddressForAccount k v st) = account st"
  "events (MarkAddressForAccount k v st) = events st"
  by (simp_all add: MarkAddressForAccount_def)

section \<open>Importing a key of another network\<close>

text \<open>
  Claim C5. When the WIF string decodes to a network other than the account's,
  \<open>ImportWIFPrivateKey\<close> returns the error "wrong network" and \<open>ImportPrivKey\<close> returns the
  same error, and the whole state (the wallet, both stores, the dirty flags, the address
  registry and the trace of events) is the one before the call.
\<close>

theorem ImportWIFPrivateKey_wrong_network:
  assumes "DecodePrivateKey ext wif = Inr (privkey, net, compressed)"
    and "net \<noteq> wallet_Net ext (Wallet (account st))"
  shows "ImportWIFPrivateKey ext wif bs st = (Inl ErrWrongNetwork, st)
       \<and> ImportPrivKey ext wif rescan st = (Some ErrWrongNetwork, st)"
  using assms by (simp add: ImportWIFPrivateKey_def ImportPrivKey_def)

theorem ImportWIFPrivateKey_wrong_network_witness:
  "ImportWIFPrivateKey demo_ext ''testkey'' \<lparr>bs_Height = 0, bs_Hash = []\<rparr> demo_world =
     (Inl ErrWrongNetwork, demo_world)
   \<and> ImportPrivKey demo_ext ''testkey'' True demo_world = (Some ErrWrongNetwork, demo_world)"
proof -
  have d: "DecodePrivateKey demo_ext ''testkey'' = Inr ([2], 2, True)"
    by (simp add: demo_ext_def)
  have n: "2 \<noteq> wallet_Net demo_ext (Wallet (account demo_world))"
    by (simp add: demo_ext_def)
  show ?thesis
    by (rule ImportWIFPrivateKey_wrong_network [OF d n])
qed


section \<open>Issued and imported addresses are registered\<close>

text \<open>
  Claim C6. When \<open>NewAddress\<close> returns an address, or \<open>ImportWIFPrivateKey\<close> returns an
  address string, or \<open>ImportPrivKey\<close> returns no error, \<open>LookupAccountByAddress\<close> on that
  address succeeds in the resulting state and yields the account's name \<open>a.Name()\<close>, the
  name of the embedded wallet.
\<close>

theorem registered_after_issue_or_import:
  "(NewAddress ext st = (Inr addr, st1) \<longrightarrow>
      LookupAccountByAddress (EncodeAddress addr) st1 =
        Inr (wallet_Name ext (Wallet (account st1))))
   \<and> (ImportWIFPrivateKey ext wif bs st = (Inr s, st2) \<longrightarrow>
      LookupAccountByAddress s st2 = Inr (wallet_Name ext (Wallet (account st2))))
   \<and> (ImportPrivKey ext wif rescan st = (None, st3) \<longrightarrow>
      (\<exists>s st2. ImportWIFPrivateKey ext wif \<lparr>bs_Height = 0, bs_Hash = []\<rparr> st = (Inr s, st2) \<and>
         LookupAccountByAddress s st3 = Inr (wallet_Name ext (Wallet (account st3)))))"
proof (intro conjI impI)
  assume "NewAddress ext st = (Inr addr, st1)"
  then show "LookupAccountByAddress (EncodeAddress addr) st1 =
        Inr (wallet_Name ext (Wallet (account st1)))"
    by (auto simp: NewAddress_def LookupAccountByAddress_def Let_def
        split: prod.splits option.splits sum.splits if_splits)
next
  assume "ImportWIFPrivateKey ext wif bs st = (Inr s, st2)"
  then show "LookupAccountByAddress s st2 = Inr (wallet_Name ext (Wallet (account st2)))"
    by (auto simp: ImportWIFPrivateKey_def LookupAccountByAddress_def Let_def
        split: prod.splits option.splits sum.splits if_splits)
next
  assume h: "ImportPrivKey ext wif rescan st = (None, st3)"
  let ?bs = "\<lparr>bs_Height = 0, bs_Hash = []\<rparr>"
  obtain r st2 where i: "ImportWIFPrivateKey ext wif ?bs st = (r, st2)"
    by (cases "ImportWIFPrivateKey ext wif ?bs st")
  with h obtain s where r: "r = Inr s"
    by (cases r) (auto simp: ImportPrivKey_def)
  from i r have l: "LookupAccountByAddress s st2 = Inr (wallet_Name ext (Wallet (account st2)))"
    by (auto simp: ImportWIFPrivateKey_def LookupAccountByAddress_def Let_def
        split: prod.splits option.splits sum.splits if_splits)
  from h i r have "addressAccountMap st3 = addressAccountMap st2
      \<and> Wallet (account st3) = Wallet (account st2)"
    by (cases "writeDirtyToDisk ext (account st2)")
       (auto simp: ImportPrivKey_def Let_def split: if_splits
          dest: arg_cong [where f = "\<lambda>p. Wallet (snd p)"])
  with l have "LookupAccountByAddress s st3 = Inr (wallet_Name ext (Wallet (account st3)))"
    by (simp add: LookupAccountByAddress_def)
  with i r show "\<exists>s st2. ImportWIFPrivateKey ext wif ?bs st = (Inr s, st2) \<and>
         LookupAccountByAddress s st3 = Inr (wallet_Name ext (Wallet (account st3)))"
    by blast
qed

theorem registered_after_issue_or_import_witness:
  "LookupAccountByAddress (EncodeAddress (demo_address 1)) (snd (NewAddress demo_ext demo_world))
     = Inr ''savings''
   \<and> LookupAccountByAddress ''imported''
       (snd (ImportWIFPrivateKey demo_ext ''mainkey'' \<lparr>bs_Height = 0, bs_Hash = []\<rparr> demo_world))
     = Inr ''savings''"
proof -
  have n: "NewAddress demo_ext demo_world =
      (Inr (demo_address 1), snd (NewAddress demo_ext demo_world))"
    by (simp add: NewAddress_def demo_ext_def demo_world_def demo_account_def
        writeDirtyToDisk_def prod_eq_iff)
  have i: "ImportWIFPrivateKey demo_ext ''mainkey'' \<lparr>bs_Height = 0, bs_Hash = []\<rparr> demo_world =
      (Inr ''imported'',
       snd (ImportWIFPrivateKey demo_ext ''mainkey'' \<lparr>bs_Height = 0, bs_Hash = []\<rparr> demo_world))"
    by (simp add: ImportWIFPrivateKey_def demo_ext_def demo_world_def demo_account_def
        writeDirtyToDisk_def prod_eq_iff)
  have nm: "\<And>w. wallet_Name demo_ext w = ''savings''"
    by (simp add: demo_ext_def)
  from registered_after_issue_or_import [THEN conjunct1, rule_format, OF n]
    registered_after_issue_or_import [THEN conjunct2, THEN conjunct1, rule_format, OF i]
  show ?thesis by (simp only: nm) 
qed


section \<open>The current address\<close>

lemma AddressUsed_loop_iff:
  "AddressUsed_loop pkHash recs \<longleftrightarrow> (\<exists>rtx. Recv rtx \<in> set recs \<and> ReceiverHash rtx = pkHash)"
  by (induction pkHash recs rule: AddressUsed_loop.induct) auto

text \<open>
  Claim C7. \<open>CurrentAddress\<close> returns the wallet's last chained address, leaving the
  state as it is, when \<open>AddressUsed\<close> is false for it, and is the call of \<open>NewAddress\<close>
  otherwise; \<open>AddressUsed\<close> of an address holds exactly when some receive record of the
  transaction store has the address's script hash as its receiver hash.
\<close>

theorem CurrentAddress_last_unless_used:
  "CurrentAddress ext st =
     (if AddressUsed (account st) (LastChainedAddress ext (Wallet (account st)))
      then NewAddress ext st
      else (Inr (LastChainedAddress ext (Wallet (account st))), st))
   \<and> (AddressUsed a addr \<longleftrightarrow>
        (\<exists>rtx. Recv rtx \<in> set (TxStore_s a) \<and> ReceiverHash rtx = ScriptAddress addr))"
  by (simp add: CurrentAddress_def AddressUsed_def AddressUsed_loop_iff Let_def)

theorem CurrentAddress_last_unless_used_witness:
  "fst (CurrentAddress demo_ext demo_world) = Inr (demo_address 1)
   \<and> CurrentAddress demo_ext (demo_world\<lparr>account := demo_account\<lparr>TxStore_s := []\<rparr>\<rparr>) =
       (Inr (demo_address 0), demo_world\<lparr>account := demo_account\<lparr>TxStore_s := []\<rparr>\<rparr>)"
proof -
  have u: "AddressUsed (account demo_world) (LastChainedAddress demo_ext (Wallet (account demo_world)))"
    by (simp add: AddressUsed_def demo_world_def demo_account_def demo_txs_def demo_ext_def
        demo_address_def)
  have n: "fst (NewAddress demo_ext demo_world) = Inr (demo_address 1)"
    by (simp add: NewAddress_def demo_ext_def demo_world_def demo_account_def
        writeDirtyToDisk_def)
  have v: "\<not> AddressUsed (account (demo_world\<lparr>account := demo_account\<lparr>TxStore_s := []\<rparr>\<rparr>))
      (LastChainedAddress demo_ext
        (Wallet (account (demo_world\<lparr>account := demo_account\<lparr>TxStore_s := []\<rparr>\<rparr>))))"
    by (simp add: CurrentAddress_last_unless_used [THEN conjunct2])
  have l: "LastChainedAddress demo_ext
        (Wallet (account (demo_world\<lparr>account := demo_account\<lparr>TxStore_s := []\<rparr>\<rparr>))) = demo_address 0"
    by (simp add: demo_ext_def demo_account_def)
  from CurrentAddress_last_unless_used [THEN conjunct1, of demo_ext demo_world] u n
  have "fst (CurrentAddress demo_ext demo_world) = Inr (demo_address 1)" by simp
  moreover
  from CurrentAddress_last_unless_used [THEN conjunct1, of demo_ext
      "demo_world\<lparr>account := demo_account\<lparr>TxStore_s := []\<rparr>\<rparr>"] v l
  have "CurrentAddress demo_ext (demo_world\<lparr>account := demo_account\<lparr>TxStore_s := []\<rparr>\<rparr>) =
       (Inr (demo_address 0), demo_world\<lparr>account := demo_account\<lparr>TxStore_s := []\<rparr>\<rparr>)"
    by simp
  ultimately show ?thesis by simp
qed

section \<open>A failing flush\<close>

text \<open>
  Claim C3, as amended. When the in-memory step succeeded and the flush fails,
  \<open>NewAddress\<close> only logs the failure: it returns the address, the account is the one with
  the new wallet state and the dirty flag set, and the address is registered.
  \<open>ImportWIFPrivateKey\<close> logs the failure and returns the error "import failed: cannot
  write wallet"; the account keeps the wallet state with the imported key and the dirty
  flag set, the address is not registered, and \<open>ImportPrivKey\<close> returns that error.
\<close>

theorem flush_failure_after_mutation:
  "(GetCurBlock ext = (bs, None)
      \<and> NextChainedAddress ext bs (Wallet (account st)) = (Inr addr, w1)
      \<and> disk_write ext ((account st)\<lparr>Wallet := w1, dirty := True\<rparr>) = Some e \<longrightarrow>
      fst (NewAddress ext st) = Inr addr
      \<and> account (snd (NewAddress ext st)) = (account st)\<lparr>Wallet := w1, dirty := True\<rparr>
      \<and> LogError ''cannot sync dirty wallet: %v'' \<in> set (events (snd (NewAddress ext st)))
      \<and> LookupAccountByAddress (EncodeAddress addr) (snd (NewAddress ext st)) =
          Inr (wallet_Name ext w1))
   \<and> (DecodePrivateKey ext wif = Inr (privkey, net, compressed)
      \<and> net = wallet_Net ext (Wallet (account st))
      \<and> wallet_ImportPrivateKey ext privkey compressed bs' (Wallet (account st)) = (Inr s, w2)
      \<and> disk_write ext ((account st)\<lparr>Wallet := w2, dirty := True\<rparr>) = Some e' \<longrightarrow>
      ImportWIFPrivateKey ext wif bs' st =
        (Inl (ErrImportFailed e'),
         st\<lparr>account := (account st)\<lparr>Wallet := w2, dirty := True\<rparr>,
            events := events st @ [LogError ''cannot write dirty wallet: %v'']\<rparr>)
      \<and> (bs' = \<lparr>bs_Height = 0, bs_Hash = []\<rparr> \<longrightarrow>
           fst (ImportPrivKey ext wif rescan st) = Some (ErrImportFailed e')))"
proof (intro conjI impI)
  assume h: "GetCurBlock ext = (bs, None)
      \<and> NextChainedAddress ext bs (Wallet (account st)) = (Inr addr, w1)
      \<and> disk_write ext ((account st)\<lparr>Wallet := w1, dirty := True\<rparr>) = Some e"
  then have w: "writeDirtyToDisk ext ((account st)\<lparr>Wallet := w1, dirty := True\<rparr>) =
      (Some e, (account st)\<lparr>Wallet := w1, dirty := True\<rparr>)"
    by (intro writeDirtyToDisk_fails) simp_all
  from h w show "fst (NewAddress ext st) = Inr addr"
    by (simp add: NewAddress_def)
  from h w show "account (snd (NewAddress ext st)) = (account st)\<lparr>Wallet := w1, dirty := True\<rparr>"
    by (simp add: NewAddress_def)
  from h w show "LogError ''cannot sync dirty wallet: %v'' \<in> set (events (snd (NewAddress ext st)))"
    by (simp add: NewAddress_def ReqNewTxsForAddress_def Let_def)
  from h w show "LookupAccountByAddress (EncodeAddress addr) (snd (NewAddress ext st)) =
          Inr (wallet_Name ext w1)"
    by (simp add: NewAddress_def LookupAccountByAddress_def)
next
  assume h: "DecodePrivateKey ext wif = Inr (privkey, net, compressed)
      \<and> net = wallet_Net ext (Wallet (account st))
      \<and> wallet_ImportPrivateKey ext privkey compressed bs' (Wallet (account st)) = (Inr s, w2)
      \<and> disk_write ext ((account st)\<lparr>Wallet := w2, dirty := True\<rparr>) = Some e'"
  then have w: "writeDirtyToDisk ext ((account st)\<lparr>Wallet := w2, dirty := True\<rparr>) =
      (Some e', (account st)\<lparr>Wallet := w2, dirty := True\<rparr>)"
    by (intro writeDirtyToDisk_fails) simp_all
  from h w show i: "ImportWIFPrivateKey ext wif bs' st =
        (Inl (ErrImportFailed e'),
         st\<lparr>account := (account st)\<lparr>Wallet := w2, dirty := True\<rparr>,
            events := events st @ [LogError ''cannot write dirty wallet: %v'']\<rparr>)"
    by (simp add: ImportWIFPrivateKey_def emit_def)
  assume "bs' = \<lparr>bs_Height = 0, bs_Hash = []\<rparr>"
  with i show "fst (ImportPrivKey ext wif rescan st) = Some (ErrImportFailed e')"
    by (simp add: ImportPrivKey_def)
qed

theorem flush_failure_after_mutation_witness:
  "fst (NewAddress demo_ext_disk_fails demo_world) = Inr (demo_address 1)
   \<and> dirty (account (snd (NewAddress demo_ext_disk_fails demo_world)))
   \<and> events (snd (ImportWIFPrivateKey demo_ext_disk_fails ''mainkey''
        \<lparr>bs_Height = 0, bs_Hash = []\<rparr> demo_world)) = [LogError ''cannot write dirty wallet: %v'']"
proof -
  let ?w1 = "\<lparr>chain_index = Suc 0, unlock_calls = 0\<rparr>"
  let ?w0 = "\<lparr>chain_index = 0, unlock_calls = 0\<rparr>"
  let ?bs0 = "\<lparr>bs_Height = 0, bs_Hash = []\<rparr>"
  have n: "GetCurBlock demo_ext_disk_fails = (\<lparr>bs_Height = 100, bs_Hash = [7]\<rparr>, None)
      \<and> NextChainedAddress demo_ext_disk_fails \<lparr>bs_Height = 100, bs_Hash = [7]\<rparr>
          (Wallet (account demo_world)) = (Inr (demo_address 1), ?w1)
      \<and> disk_write demo_ext_disk_fails ((account demo_world)\<lparr>Wallet := ?w1, dirty := True\<rparr>) =
          Some (ErrExternal ''disk full'')"
    by (simp add: demo_ext_disk_fails_def demo_ext_def demo_world_def demo_account_def)
  have i: "DecodePrivateKey demo_ext_disk_fails ''mainkey'' = Inr ([1], 1, True)
      \<and> 1 = wallet_Net demo_ext_disk_fails (Wallet (account demo_world))
      \<and> wallet_ImportPrivateKey demo_ext_disk_fails [1] True ?bs0 (Wallet (account demo_world)) =
          (Inr ''imported'', ?w0)
      \<and> disk_write demo_ext_disk_fails ((account demo_world)\<lparr>Wallet := ?w0, dirty := True\<rparr>) =
          Some (ErrExternal ''disk full'')"
    by (simp add: demo_ext_disk_fails_def demo_ext_def demo_world_def demo_account_def)
  from flush_failure_after_mutation [THEN conjunct1, rule_format, OF n]
  have "fst (NewAddress demo_ext_disk_fails demo_world) = Inr (demo_address 1)"
    and "dirty (account (snd (NewAddress demo_ext_disk_fails demo_world)))"
    by simp_all
  moreover
  from flush_failure_after_mutation [THEN conjunct2, rule_format, OF i, THEN conjunct1]
  have "events (snd (ImportWIFPrivateKey demo_ext_disk_fails ''mainkey'' ?bs0 demo_world)) =
      [LogError ''cannot write dirty wallet: %v'']"
    by (simp add: demo_world_def)
  ultimately show ?thesis by simp
qed

text \<open>
  Claim C3 as stated fails for the import: with a disk that refuses the write, the
  wallet's own import succeeds and \<open>ImportWIFPrivateKey\<close> and \<open>ImportPrivKey\<close> report an
  error to their caller.
\<close>

theorem import_reports_flush_failure:
  "fst (wallet_ImportPrivateKey demo_ext_disk_fails [1] True \<lparr>bs_Height = 0, bs_Hash = []\<rparr>
        (Wallet (account demo_world))) = Inr ''imported''
   \<and> fst (ImportWIFPrivateKey demo_ext_disk_fails ''mainkey'' \<lparr>bs_Height = 0, bs_Hash = []\<rparr>
        demo_world) = Inl (ErrImportFailed (ErrExternal ''disk full''))
   \<and> fst (ImportPrivKey demo_ext_disk_fails ''mainkey'' False demo_world) =
        Some (ErrImportFailed (ErrExternal ''disk full''))"
  by (simp add: ImportPrivKey_def ImportWIFPrivateKey_def writeDirtyToDisk_def
      demo_ext_disk_fails_def demo_ext_def demo_world_def demo_account_def)

section \<open>The dirty flags across \<open>Rollback\<close>\<close>








section \<open>Unlock calls the wallet twice\<close>

lemma Unlock_delegates_twice:
  "fst (Unlock ext passphrase timeout st) =
     fst (wallet_Unlock ext passphrase
       (snd (wallet_Unlock ext passphrase (Wallet (account st)))))
   \<and> Wallet (account (snd (Unlock ext passphrase timeout st))) =
     snd (wallet_Unlock ext passphrase
       (snd (wallet_Unlock ext passphrase (Wallet (account st)))))"
  by (simp add: Unlock_def Let_def emit_def split: prod.splits)

text \<open>
  Claim C9 fails on the code. \<open>Unlock\<close> calls the wallet's \<open>Unlock\<close> twice in every
  call: once for the result that decides the notification, and once more in its
  \<open>return\<close> statement, also after the first call failed. With a wrong passphrase the
  wallet has seen two unlock attempts when the error is returned; with the right one it
  has seen two as well, for one notification.
\<close>

theorem Unlock_calls_wallet_twice:
  "Unlock demo_ext [9] 0 demo_world =
     (Some (ErrExternal ''wrong passphrase''),
      demo_world\<lparr>account := demo_account\<lparr>Wallet := \<lparr>chain_index = 0, unlock_calls = 2\<rparr>\<rparr>\<rparr>)
   \<and> Unlock demo_ext [1, 2, 3] 0 demo_world =
     (None,
      demo_world\<lparr>account := demo_account\<lparr>Wallet := \<lparr>chain_index = 0, unlock_calls = 2\<rparr>\<rparr>,
                 events := [WalletLockStateChange ''savings'' False]\<rparr>)"
  by (simp add: Unlock_def Let_def emit_def demo_ext_def demo_world_def demo_account_def)

end
